theory Spec2Isabelle
  imports Main "HOL-Library.Sublist"
begin

section \<open>Data model\<close>

subsection \<open>Untyped values\<close>

text \<open>
  Values of TypeScript type \<open>unknown\<close>: the extra claims of a JWT payload, the values of
  the metadata bags, and whatever a \<open>throw\<close> statement may throw that is not an
  \<open>Error\<close> instance. An absent property (\<open>undefined\<close>) is the \<open>None\<close> of a lookup.
  Numbers are never computed with here; only their not being a string, an array or
  \<open>null\<close> matters.
\<close>

datatype jsvalue =
    JNull
  | JBool bool
  | JNum int
  | JStr string
  | JArr "jsvalue list"
  | JObj "(string \<times> jsvalue) list"

subsection \<open>errors.ts\<close>

datatype AuthErrorCode = UNAUTHORIZED | INVALID_TOKEN | TOKEN_EXPIRED | FORBIDDEN

text \<open>The codes are string literals in the source; this is the string each one is.\<close>

fun code_string :: "AuthErrorCode \<Rightarrow> string" where
  "code_string UNAUTHORIZED = ''UNAUTHORIZED''"
| "code_string INVALID_TOKEN = ''INVALID_TOKEN''"
| "code_string TOKEN_EXPIRED = ''TOKEN_EXPIRED''"
| "code_string FORBIDDEN = ''FORBIDDEN''"

record AuthError =
  code :: AuthErrorCode
  message :: string
  statusCode :: nat

text \<open>
  The constructor \<open>new AuthError(code, message, statusCode?)\<close>:
  \<open>this.statusCode = statusCode ?? (code === 'FORBIDDEN' ? 403 : 401)\<close>.
\<close>

definition new_AuthError :: "AuthErrorCode \<Rightarrow> string \<Rightarrow> nat option \<Rightarrow> AuthError" where
  "new_AuthError c m sc =
     \<lparr> code = c, message = m,
       statusCode = (case sc of Some s \<Rightarrow> s | None \<Rightarrow> (if c = FORBIDDEN then 403 else 401)) \<rparr>"

text \<open>\<open>toResponse()\<close>: the object \<open>{ error: { code, message } }\<close>.\<close>

definition toResponse :: "AuthError \<Rightarrow> jsvalue" where
  "toResponse e =
     JObj [(''error'', JObj [(''code'', JStr (code_string (code e))),
                             (''message'', JStr (message e))])]"

text \<open>
  What a \<open>catch\<close> clause may receive. \<open>AuthError\<close> extends \<open>Error\<close>, so both of the first
  two constructors are \<open>instanceof Error\<close>; anything else (a thrown string, a plain
  object, \<open>null\<close>) is a \<open>ThrownValue\<close>.
\<close>

datatype thrown =
    AuthErrorObject AuthError
  | ErrorObject string
  | ThrownValue jsvalue

fun isAuthError :: "thrown \<Rightarrow> bool" where
  "isAuthError (AuthErrorObject e) = True"
| "isAuthError _ = False"

fun instanceof_Error :: "thrown \<Rightarrow> bool" where
  "instanceof_Error (AuthErrorObject e) = True"
| "instanceof_Error (ErrorObject m) = True"
| "instanceof_Error (ThrownValue v) = False"

text \<open>\<open>error.message\<close> of an \<open>Error\<close> instance.\<close>

fun error_message :: "thrown \<Rightarrow> string" where
  "error_message (AuthErrorObject e) = message e"
| "error_message (ErrorObject m) = m"
| "error_message (ThrownValue v) = []"

subsection \<open>context.ts\<close>

record JwtPayload =
  sub :: string
  sid :: "string option"
  claims :: "string \<rightharpoonup> jsvalue"

record UserContext =
  userId :: string
  sessionId :: string
  email :: "string option"
  firstName :: "string option"
  lastName :: "string option"
  imageUrl :: "string option"
  orgId :: "string option"
  orgRole :: "string option"
  orgSlug :: "string option"
  publicMetadata :: jsvalue
  privateMetadata :: jsvalue
  raw :: JwtPayload

subsection \<open>The request\<close>

record RouteConfig =
  public :: "bool option"

record FastifyRequest =
  authorization :: "string option"
  userAgent :: "string option"
  cookies :: "(string \<rightharpoonup> string) option"
  routeConfig :: "RouteConfig option"
  user :: "UserContext option"
  req_method :: string
  url :: string
  ip :: string

section \<open>Strings\<close>

text \<open>\<open>s.startsWith(p)\<close>, \<open>s.slice(n)\<close> for \<open>0 \<le> n\<close>, and \<open>s.includes(p)\<close> on strings.\<close>

fun startsWith :: "string \<Rightarrow> string \<Rightarrow> bool" where
  "startsWith s [] = True"
| "startsWith [] (p # ps) = False"
| "startsWith (c # cs) (p # ps) = (c = p \<and> startsWith cs ps)"

definition slice :: "string \<Rightarrow> nat \<Rightarrow> string" where
  "slice s n = drop n s"

fun includes_str :: "string \<Rightarrow> string \<Rightarrow> bool" where
  "includes_str [] p = (p = [])"
| "includes_str (c # cs) p = (startsWith (c # cs) p \<or> includes_str cs p)"

section \<open>token.ts\<close>

text \<open>
  \<open>extractToken\<close>: the Authorization header first, the \<open>__session\<close> cookie second.
  \<open>authHeader?.startsWith('Bearer ')\<close> is \<open>undefined\<close> (falsy) for an absent header;
  \<open>if (sessionCookie)\<close> is false for an absent cookie and for the empty string.
  \<open>sessionCookieToken\<close> is the second step of the function, which both an absent
  header and a header of another scheme fall through to.
\<close>

definition sessionCookieToken :: "FastifyRequest \<Rightarrow> string option" where
  "sessionCookieToken request =
     (let sessionCookie = (case cookies request of None \<Rightarrow> None | Some cs \<Rightarrow> cs ''__session'') in
      case sessionCookie of
        None \<Rightarrow> None
      | Some c \<Rightarrow> if c \<noteq> [] then Some c else None)"

definition extractToken :: "FastifyRequest \<Rightarrow> string option" where
  "extractToken request =
     (case authorization request of
        None \<Rightarrow> sessionCookieToken request
      | Some authHeader \<Rightarrow>
          if startsWith authHeader ''Bearer '' then Some (slice authHeader 7)
          else sessionCookieToken request)"

text \<open>
  \<open>typeof payload[k] === 'string' ? payload[k] : null\<close>, and
  \<open>(payload[k] as Record<string, unknown>) ?? {}\<close>: the cast checks nothing, so any
  value other than \<open>null\<close> and \<open>undefined\<close> is kept as it is.
\<close>

definition string_claim :: "JwtPayload \<Rightarrow> string \<Rightarrow> string option" where
  "string_claim payload k = (case claims payload k of Some (JStr s) \<Rightarrow> Some s | _ \<Rightarrow> None)"

definition metadata_claim :: "JwtPayload \<Rightarrow> string \<Rightarrow> jsvalue" where
  "metadata_claim payload k =
     (case claims payload k of None \<Rightarrow> JObj [] | Some JNull \<Rightarrow> JObj [] | Some v \<Rightarrow> v)"

definition mapClerkPayloadToUserContext :: "JwtPayload \<Rightarrow> UserContext" where
  "mapClerkPayloadToUserContext payload =
     \<lparr> userId = sub payload,
       sessionId = (case sid payload of None \<Rightarrow> [] | Some s \<Rightarrow> s),
       email = string_claim payload ''email'',
       firstName = string_claim payload ''first_name'',
       lastName = string_claim payload ''last_name'',
       imageUrl = string_claim payload ''image_url'',
       orgId = string_claim payload ''org_id'',
       orgRole = string_claim payload ''org_role'',
       orgSlug = string_claim payload ''org_slug'',
       publicMetadata = metadata_claim payload ''public_metadata'',
       privateMetadata = metadata_claim payload ''private_metadata'',
       raw = payload \<rparr>"

record TokenVerificationOptions =
  secretKey :: string
  authorizedParties :: "string list option"
  jwtKey :: "string option"

text \<open>
  The identity provider's \<open>verifyToken\<close> (imported as \<open>clerkVerifyToken\<close>) is not part
  of the repository: it is a parameter, a function that returns a payload or throws.
  The two functions below are the test suite's doubles for it
  (\<open>mockResolvedValue\<close>, \<open>mockRejectedValue\<close>).
\<close>

type_synonym clerkVerifyToken = "string \<Rightarrow> TokenVerificationOptions \<Rightarrow> thrown + JwtPayload"

definition mockResolvedValue :: "JwtPayload \<Rightarrow> clerkVerifyToken" where
  "mockResolvedValue payload token verifyOptions = Inr payload"

definition mockRejectedValue :: "thrown \<Rightarrow> clerkVerifyToken" where
  "mockRejectedValue err token verifyOptions = Inl err"

definition verifyToken ::
  "clerkVerifyToken \<Rightarrow> string \<Rightarrow> TokenVerificationOptions \<Rightarrow> thrown + UserContext" where
  "verifyToken clerk token options =
     (let verifyOptions =
            \<lparr> secretKey = secretKey options,
              authorizedParties = authorizedParties options,
              jwtKey = jwtKey options \<rparr>
      in case clerk token verifyOptions of
           Inr payload \<Rightarrow> Inr (mapClerkPayloadToUserContext payload)
         | Inl err \<Rightarrow>
             if instanceof_Error err then
               if includes_str (error_message err) ''expired''
               then Inl (AuthErrorObject (new_AuthError TOKEN_EXPIRED ''Token has expired'' None))
               else Inl (AuthErrorObject (new_AuthError INVALID_TOKEN ''Invalid or malformed token'' None))
             else Inl (AuthErrorObject (new_AuthError INVALID_TOKEN ''Invalid or malformed token'' None)))"

section \<open>plugin.ts\<close>

record AuthPluginOptions =
  plugin_secretKey :: "string option"
  plugin_authorizedParties :: "string list option"
  plugin_jwtKey :: "string option"
  respectPublicRoutes :: "bool option"
  logFailures :: "bool option"
  onAuthFailure :: "(AuthError \<Rightarrow> FastifyRequest \<Rightarrow> thrown option) option"

text \<open>
  What the pre-handler does to the outside, in the order it does it: the call of
  \<open>extractToken\<close>, the call of \<open>verifyToken\<close> with the token, the \<open>request.log.warn\<close>
  entry (error code, error message, method, url, ip, user agent) and the call of the
  \<open>onAuthFailure\<close> callback. The callback returns \<open>None\<close> or the value it throws.
\<close>

datatype event =
    ExtractTokenCall
  | VerifyTokenCall string
  | LogWarn AuthErrorCode string string string string "string option"
  | OnAuthFailureCall AuthError

definition logAuthFailure ::
  "AuthError \<Rightarrow> FastifyRequest \<Rightarrow> AuthPluginOptions \<Rightarrow> thrown option \<times> event list" where
  "logAuthFailure err request options =
     (let logged =
            (if logFailures options \<noteq> Some False
             then [LogWarn (code err) (message err) (req_method request) (url request)
                     (ip request) (userAgent request)]
             else [])
      in case onAuthFailure options of
           None \<Rightarrow> (None, logged)
         | Some callback \<Rightarrow> (callback err request, logged @ [OnAuthFailureCall err]))"

text \<open>
  The pre-handler returns normally (\<open>Inr ()\<close>) or throws, and leaves the request as
  its second component. \<open>routeConfig?.public\<close> is truthy only for \<open>true\<close>; \<open>!token\<close> is
  true for \<open>null\<close> and for the empty string; \<open>isAuthError(error)\<close> holds exactly of an
  \<open>AuthErrorObject\<close>. \<open>throwLogged\<close> is the pair of statements
  \<open>logAuthFailure(error, request, options); throw error\<close>, after the events so far:
  when the callback itself throws, that exception escapes in place of the error.
\<close>

definition throwLogged ::
  "AuthError \<Rightarrow> thrown \<Rightarrow> FastifyRequest \<Rightarrow> AuthPluginOptions \<Rightarrow> event list
     \<Rightarrow> (thrown + unit) \<times> FastifyRequest \<times> event list" where
  "throwLogged err rethrown request options sofar =
     (case logAuthFailure err request options of
        (Some callbackThrew, evs) \<Rightarrow> (Inl callbackThrew, request, sofar @ evs)
      | (None, evs) \<Rightarrow> (Inl rethrown, request, sofar @ evs))"

definition createAuthPreHandler ::
  "clerkVerifyToken \<Rightarrow> AuthPluginOptions \<Rightarrow> TokenVerificationOptions \<Rightarrow> FastifyRequest
     \<Rightarrow> (thrown + unit) \<times> FastifyRequest \<times> event list" where
  "createAuthPreHandler clerk options verifyOptions request =
     (if respectPublicRoutes options \<noteq> Some False \<and>
         (case routeConfig request of None \<Rightarrow> False | Some rc \<Rightarrow> public rc = Some True)
      then (Inr (), request, [])
      else
        (let token = extractToken request;
             unauthorized = new_AuthError UNAUTHORIZED ''Authentication required'' None
         in case token of
              None \<Rightarrow>
                throwLogged unauthorized (AuthErrorObject unauthorized) request options
                  [ExtractTokenCall]
            | Some t \<Rightarrow>
                if t = [] then
                  throwLogged unauthorized (AuthErrorObject unauthorized) request options
                    [ExtractTokenCall]
                else
                  (case verifyToken clerk t verifyOptions of
                     Inr u \<Rightarrow>
                       (Inr (), request\<lparr>user := Some u\<rparr>, [ExtractTokenCall, VerifyTokenCall t])
                   | Inl (AuthErrorObject e) \<Rightarrow>
                       throwLogged e (AuthErrorObject e) request options
                         [ExtractTokenCall, VerifyTokenCall t]
                   | Inl err \<Rightarrow> (Inl err, request, [ExtractTokenCall, VerifyTokenCall t]))))"

record FastifyReply =
  status :: nat
  body :: jsvalue

text \<open>
  The error handler: \<open>reply.status(error.statusCode).send(error.toResponse())\<close> for an
  \<open>AuthError\<close>, and any other error thrown again.
\<close>

fun authErrorHandler :: "thrown \<Rightarrow> thrown + FastifyReply" where
  "authErrorHandler (AuthErrorObject e) = Inr \<lparr> status = statusCode e, body = toResponse e \<rparr>"
| "authErrorHandler err = Inl err"

section \<open>permissions.ts\<close>

text \<open>
  A guard is a pre-handler as well: it returns normally or throws, and the request it
  leaves is its second component. The check is a function of the source that returns a
  boolean or throws; the message parameter has the default \<open>'Insufficient permissions'\<close>.
\<close>

definition requirePermission ::
  "(UserContext \<Rightarrow> thrown + bool) \<Rightarrow> string option \<Rightarrow> FastifyRequest
     \<Rightarrow> (thrown + unit) \<times> FastifyRequest" where
  "requirePermission check errorMessage request =
     (case user request of
        None \<Rightarrow>
          (Inl (AuthErrorObject (new_AuthError UNAUTHORIZED ''Authentication required'' None)),
           request)
      | Some u \<Rightarrow>
          (case check u of
             Inl err \<Rightarrow> (Inl err, request)
           | Inr ok \<Rightarrow>
               if \<not> ok then
                 (Inl (AuthErrorObject
                         (new_AuthError FORBIDDEN
                            (case errorMessage of None \<Rightarrow> ''Insufficient permissions'' | Some m \<Rightarrow> m)
                            None)),
                  request)
               else (Inr (), request)))"

text \<open>
  \<open>user.publicMetadata['scopes']\<close>: a property read. On \<open>null\<close> it throws a
  \<open>TypeError\<close> (an \<open>Error\<close> whose message depends on the engine); on an object it is
  the property or \<open>undefined\<close>; on a string, an array, a number or a boolean it is
  \<open>undefined\<close> for the keys read here, which are no built-in properties.
\<close>

fun get_property :: "jsvalue \<Rightarrow> string \<Rightarrow> thrown + jsvalue option" where
  "get_property JNull k = Inl (ErrorObject ''TypeError'')"
| "get_property (JObj kvs) k = Inr (map_of kvs k)"
| "get_property v k = Inr None"

text \<open>
  \<open>userScopes?.includes(s)\<close>, read as the condition it is used as: \<open>undefined\<close> (falsy)
  when \<open>userScopes\<close> is \<open>undefined\<close> or \<open>null\<close>; membership in an array (a string is
  only equal to a string); the substring test on a string; a \<open>TypeError\<close> on every
  other value, which has no callable \<open>includes\<close>.
\<close>

fun optional_includes :: "jsvalue option \<Rightarrow> string \<Rightarrow> thrown + bool" where
  "optional_includes None s = Inr False"
| "optional_includes (Some JNull) s = Inr False"
| "optional_includes (Some (JArr xs)) s = Inr (JStr s \<in> set xs)"
| "optional_includes (Some (JStr t)) s = Inr (includes_str t s)"
| "optional_includes (Some v) s = Inl (ErrorObject ''TypeError'')"

text \<open>\<open>scopes.every((s) => userScopes?.includes(s))\<close>: stops at the first falsy answer.\<close>

fun every_scope :: "jsvalue option \<Rightarrow> string list \<Rightarrow> thrown + bool" where
  "every_scope userScopes [] = Inr True"
| "every_scope userScopes (s # ss) =
     (case optional_includes userScopes s of
        Inl err \<Rightarrow> Inl err
      | Inr ok \<Rightarrow> if ok then every_scope userScopes ss else Inr False)"

text \<open>\<open>scopes.join(sep)\<close>.\<close>

fun join :: "string list \<Rightarrow> string \<Rightarrow> string" where
  "join [] sep = []"
| "join [x] sep = x"
| "join (x # y # ys) sep = x @ sep @ join (y # ys) sep"

definition requireScopes :: "string list \<Rightarrow> FastifyRequest \<Rightarrow> (thrown + unit) \<times> FastifyRequest" where
  "requireScopes scopes =
     requirePermission
       (\<lambda>u. case get_property (publicMetadata u) ''scopes'' of
               Inl err \<Rightarrow> Inl err
             | Inr userScopes \<Rightarrow> every_scope userScopes scopes)
       (Some (''Scopes required: '' @ join scopes '', ''))"

section \<open>Test doubles and sample requests\<close>

text \<open>
  \<open>createMockUser()\<close> of \<open>testing/index.ts\<close> with no overrides; its \<open>raw\<close> payload is
  the empty object.
\<close>

definition createMockUser :: UserContext where
  "createMockUser =
     \<lparr> userId = ''user_test_123'', sessionId = ''sess_test_123'',
       email = Some ''test@example.com'', firstName = Some ''Test'', lastName = Some ''User'',
       imageUrl = None, orgId = None, orgRole = None, orgSlug = None,
       publicMetadata = JObj [], privateMetadata = JObj [],
       raw = \<lparr> sub = [], sid = None, claims = Map.empty \<rparr> \<rparr>"

definition testVerifyOptions :: TokenVerificationOptions where
  "testVerifyOptions = \<lparr> secretKey = ''sk_test_123'', authorizedParties = None, jwtKey = None \<rparr>"

text \<open>The plugin registered with a secret key only, and with a failure callback as well.\<close>

definition defaultOptions :: AuthPluginOptions where
  "defaultOptions =
     \<lparr> plugin_secretKey = Some ''sk_test_123'', plugin_authorizedParties = None,
       plugin_jwtKey = None, respectPublicRoutes = None, logFailures = None,
       onAuthFailure = None \<rparr>"

definition quietCallback :: "AuthError \<Rightarrow> FastifyRequest \<Rightarrow> thrown option" where
  "quietCallback err request = None"

definition observedOptions :: AuthPluginOptions where
  "observedOptions = defaultOptions \<lparr> logFailures := Some False, onAuthFailure := Some quietCallback \<rparr>"

definition plainRequest :: FastifyRequest where
  "plainRequest =
     \<lparr> authorization = None, userAgent = None, cookies = None, routeConfig = None,
       user = None, req_method = ''GET'', url = ''/protected'', ip = ''127.0.0.1'' \<rparr>"

definition emptyBearerRequest :: FastifyRequest where
  "emptyBearerRequest = plainRequest \<lparr> authorization := Some ''Bearer '' \<rparr>"

definition emptyBearerCookieRequest :: FastifyRequest where
  "emptyBearerCookieRequest =
     plainRequest \<lparr> authorization := Some ''Bearer '',
                    cookies := Some [''__session'' \<mapsto> ''cookie-token''] \<rparr>"

definition emptySessionCookies :: "string \<rightharpoonup> string" where
  "emptySessionCookies = [''__session'' \<mapsto> []]"

definition emptyCookieRequest :: FastifyRequest where
  "emptyCookieRequest = plainRequest \<lparr> cookies := Some emptySessionCookies \<rparr>"

definition bothSourcesRequest :: FastifyRequest where
  "bothSourcesRequest =
     plainRequest \<lparr> authorization := Some ''Bearer header-token'',
                    cookies := Some [''__session'' \<mapsto> ''cookie-token''] \<rparr>"

definition basicSchemeRequest :: FastifyRequest where
  "basicSchemeRequest =
     plainRequest \<lparr> authorization := Some ''Basic credentials'',
                    cookies := Some [''__session'' \<mapsto> ''cookie-token''] \<rparr>"

definition publicRouteRequest :: FastifyRequest where
  "publicRouteRequest =
     plainRequest \<lparr> authorization := Some ''Bearer valid-token'',
                    routeConfig := Some \<lparr> public = Some True \<rparr>,
                    url := ''/public'' \<rparr>"

text \<open>Payloads the provider may resolve with.\<close>

definition roleWithoutOrgPayload :: JwtPayload where
  "roleWithoutOrgPayload =
     \<lparr> sub = ''user_123'', sid = Some ''sess_456'', claims = [''org_role'' \<mapsto> JStr ''admin''] \<rparr>"

definition fullOrgPayload :: JwtPayload where
  "fullOrgPayload =
     \<lparr> sub = ''user_123'', sid = Some ''sess_456'',
       claims = [''org_id'' \<mapsto> JStr ''org_123'', ''org_role'' \<mapsto> JStr ''admin'',
                 ''org_slug'' \<mapsto> JStr ''acme''] \<rparr>"

definition emptySubjectPayload :: JwtPayload where
  "emptySubjectPayload = \<lparr> sub = [], sid = Some ''sess_456'', claims = Map.empty \<rparr>"

text \<open>Requests that carry a user, and a check on the organization role.\<close>

definition memberRequest :: FastifyRequest where
  "memberRequest =
     plainRequest \<lparr> user := Some (createMockUser \<lparr> orgId := Some ''org_123'',
                                                    orgRole := Some ''member'' \<rparr>) \<rparr>"

definition isOrgAdmin :: "UserContext \<Rightarrow> thrown + bool" where
  "isOrgAdmin u = Inr (orgRole u = Some ''admin'')"

definition scopedUser :: UserContext where
  "scopedUser =
     createMockUser \<lparr> publicMetadata :=
       JObj [(''scopes'', JArr [JStr ''read'', JStr ''write'', JStr ''delete''])] \<rparr>"

definition scopedRequest :: FastifyRequest where
  "scopedRequest = plainRequest \<lparr> user := Some scopedUser \<rparr>"

section \<open>Strings: what the three operations compute\<close>

lemma startsWith_prefix: "startsWith s p \<longleftrightarrow> prefix p s"
  by (induction s p rule: startsWith.induct) auto

lemma includes_sublist: "includes_str s p \<longleftrightarrow> sublist p s"
  by (induction s) (auto simp: startsWith_prefix sublist_Cons_right)

lemma includes_append: "includes_str s p \<longleftrightarrow> (\<exists>pre post. s = pre @ p @ post)"
  by (simp add: includes_sublist sublist_def)

section \<open>Credential extraction\<close>

text \<open>
  C4, as stated, fails in one case. The cookie's value is not always returned as it
  is: \<open>if (sessionCookie)\<close> is false for the empty string, so a request with no
  Authorization header and the cookie \<open>__session=\<close> gives "none found", while the
  empty token of the header \<open>Bearer \<close> is returned as the empty string.
\<close>

theorem empty_session_cookie_dropped:
  "authorization emptyCookieRequest = None
   \<and> cookies emptyCookieRequest = Some emptySessionCookies
   \<and> emptySessionCookies ''__session'' = Some []
   \<and> extractToken emptyCookieRequest = None
   \<and> extractToken emptyCookieRequest \<noteq> Some []
   \<and> extractToken emptyBearerRequest = Some []"
  by (simp add: extractToken_def sessionCookieToken_def slice_def emptyCookieRequest_def
        emptySessionCookies_def emptyBearerRequest_def plainRequest_def)

text \<open>
  C4, amended. The Authorization header is looked at first and the \<open>__session\<close>
  cookie second. A header \<open>Bearer t\<close> gives \<open>t\<close> as it is, the empty string included,
  whatever the cookies are. With no header, or a header that does not start with
  \<open>Bearer \<close>, the result is the cookie's value as it is when the cookie is present and
  not empty, and "none found" when the cookie is absent or empty.
\<close>

theorem extractToken_sources:
  "(authorization request = Some (''Bearer '' @ t) \<longrightarrow>
      extractToken request = Some t \<and>
      (\<forall>cs. extractToken (request\<lparr>cookies := cs\<rparr>) = Some t))
   \<and> ((authorization request = None \<or>
        (\<exists>h. authorization request = Some h \<and> \<not> prefix ''Bearer '' h)) \<longrightarrow>
       extractToken request =
         (case cookies request of
            None \<Rightarrow> None
          | Some cs \<Rightarrow>
              (case cs ''__session'' of
                 None \<Rightarrow> None
               | Some c \<Rightarrow> if c = [] then None else Some c)))"
  by (auto simp: extractToken_def sessionCookieToken_def slice_def startsWith_prefix
           split: option.splits)

theorem extractToken_sources_witness:
  "extractToken bothSourcesRequest = Some ''header-token''
   \<and> extractToken (bothSourcesRequest\<lparr>cookies := None\<rparr>) = Some ''header-token''
   \<and> extractToken basicSchemeRequest = Some ''cookie-token''
   \<and> extractToken plainRequest = None
   \<and> extractToken emptyCookieRequest = None"
  using extractToken_sources [of bothSourcesRequest "''header-token''"]
        extractToken_sources [of basicSchemeRequest]
        extractToken_sources [of plainRequest]
        extractToken_sources [of emptyCookieRequest]
  by (simp add: bothSourcesRequest_def basicSchemeRequest_def plainRequest_def
        emptyCookieRequest_def emptySessionCookies_def)

section \<open>The pre-handler\<close>

text \<open>
  C1, as stated, fails. For the header \<open>Bearer \<close> the extractor does return the empty
  string, but the pre-handler's \<open>!token\<close> is true for it: the request is rejected with
  \<open>UNAUTHORIZED\<close> before \<open>verifyToken\<close> is called, and never gets \<open>INVALID_TOKEN\<close>.
\<close>

theorem empty_bearer_not_verified:
  "extractToken emptyBearerRequest = Some []
   \<and> createAuthPreHandler (mockRejectedValue (ErrorObject ''Invalid token'')) defaultOptions
        testVerifyOptions emptyBearerRequest =
      (Inl (AuthErrorObject
              \<lparr> code = UNAUTHORIZED, message = ''Authentication required'', statusCode = 401 \<rparr>),
       emptyBearerRequest,
       [ExtractTokenCall,
        LogWarn UNAUTHORIZED ''Authentication required'' ''GET'' ''/protected'' ''127.0.0.1'' None])
   \<and> fst (createAuthPreHandler (mockRejectedValue (ErrorObject ''Invalid token'')) defaultOptions
             testVerifyOptions emptyBearerRequest) \<noteq>
      Inl (AuthErrorObject
             \<lparr> code = INVALID_TOKEN, message = ''Invalid or malformed token'',
               statusCode = 401 \<rparr>)"
  by (simp add: extractToken_def emptyBearerRequest_def plainRequest_def
        createAuthPreHandler_def defaultOptions_def slice_def throwLogged_def
        logAuthFailure_def new_AuthError_def)

text \<open>
  C1, amended. For every request whose Authorization header is exactly \<open>Bearer \<close>, on a
  route that is not skipped as public, the extractor returns the empty string and the
  pre-handler treats it as no credential. \<open>verifyToken\<close> is never called and the
  request is left as it was, with no user attached. What happens is exactly: the
  extraction, the \<open>auth_failure\<close> log entry for \<open>UNAUTHORIZED\<close> unless \<open>logFailures\<close> is
  \<open>false\<close>, and the call of the failure callback with the \<open>UNAUTHORIZED\<close> error when
  one is configured. The pre-handler then throws \<open>UNAUTHORIZED\<close> with the message
  \<open>Authentication required\<close> and status 401; only when the callback itself throws
  does the callback's exception escape in its place.
\<close>

theorem empty_bearer_rejected_before_verification:
  assumes "authorization request = Some ''Bearer ''"
      and "respectPublicRoutes options = Some False \<or> routeConfig request = None \<or>
           (\<exists>rc. routeConfig request = Some rc \<and> public rc \<noteq> Some True)"
  shows "extractToken request = Some [] \<and>
         createAuthPreHandler clerk options verifyOptions request =
           ((case onAuthFailure options of
               None \<Rightarrow>
                 Inl (AuthErrorObject
                        \<lparr> code = UNAUTHORIZED, message = ''Authentication required'',
                          statusCode = 401 \<rparr>)
             | Some callback \<Rightarrow>
                 (case callback \<lparr> code = UNAUTHORIZED, message = ''Authentication required'',
                                  statusCode = 401 \<rparr> request of
                    None \<Rightarrow>
                      Inl (AuthErrorObject
                             \<lparr> code = UNAUTHORIZED, message = ''Authentication required'',
                               statusCode = 401 \<rparr>)
                  | Some thrownByCallback \<Rightarrow> Inl thrownByCallback)),
            request,
            [ExtractTokenCall]
            @ (if logFailures options = Some False then []
               else [LogWarn UNAUTHORIZED ''Authentication required'' (req_method request)
                       (url request) (ip request) (userAgent request)])
            @ (case onAuthFailure options of
                 None \<Rightarrow> []
               | Some callback \<Rightarrow>
                   [OnAuthFailureCall
                      \<lparr> code = UNAUTHORIZED, message = ''Authentication required'',
                        statusCode = 401 \<rparr>]))"
proof -
  have tok: "extractToken request = Some []"
    using assms(1) by (simp add: extractToken_def slice_def)
  have notpublic:
    "\<not> (respectPublicRoutes options \<noteq> Some False \<and>
        (case routeConfig request of None \<Rightarrow> False | Some rc \<Rightarrow> public rc = Some True))"
    using assms(2) by (auto split: option.splits)
  have pre:
    "createAuthPreHandler clerk options verifyOptions request =
       throwLogged (new_AuthError UNAUTHORIZED ''Authentication required'' None)
         (AuthErrorObject (new_AuthError UNAUTHORIZED ''Authentication required'' None))
         request options [ExtractTokenCall]"
    using notpublic tok by (auto simp: createAuthPreHandler_def Let_def)
  show ?thesis
    using tok unfolding pre
    by (auto simp: throwLogged_def logAuthFailure_def new_AuthError_def Let_def
             split: option.splits prod.splits)
qed

theorem empty_bearer_rejected_before_verification_witness:
  "extractToken emptyBearerCookieRequest = Some []
   \<and> createAuthPreHandler (mockResolvedValue fullOrgPayload) observedOptions testVerifyOptions
        emptyBearerCookieRequest =
      (Inl (AuthErrorObject
              \<lparr> code = UNAUTHORIZED, message = ''Authentication required'', statusCode = 401 \<rparr>),
       emptyBearerCookieRequest,
       [ExtractTokenCall,
        OnAuthFailureCall
          \<lparr> code = UNAUTHORIZED, message = ''Authentication required'', statusCode = 401 \<rparr>])"
proof -
  have h1: "authorization emptyBearerCookieRequest = Some ''Bearer ''"
    by (simp add: emptyBearerCookieRequest_def plainRequest_def)
  have h2: "respectPublicRoutes observedOptions = Some False \<or>
            routeConfig emptyBearerCookieRequest = None \<or>
            (\<exists>rc. routeConfig emptyBearerCookieRequest = Some rc \<and> public rc \<noteq> Some True)"
    by (simp add: emptyBearerCookieRequest_def plainRequest_def)
  have cb: "onAuthFailure observedOptions = Some quietCallback"
           "logFailures observedOptions = Some False"
    by (simp_all add: observedOptions_def defaultOptions_def)
  show ?thesis
    using empty_bearer_rejected_before_verification
            [OF h1 h2, of "mockResolvedValue fullOrgPayload" testVerifyOptions]
    by (simp add: cb quietCallback_def)
qed

text \<open>
  C5. On a route whose configuration has \<open>public: true\<close>, with \<open>respectPublicRoutes\<close>
  left at its default or set to \<open>true\<close>, the pre-handler returns at once: no event at
  all (no extraction, no call of \<open>verifyToken\<close>, no log entry, no call of the failure
  callback), and the request, its \<open>user\<close> slot included, is what it was.
\<close>

theorem public_route_skips_authentication:
  assumes "respectPublicRoutes options \<noteq> Some False"
      and "routeConfig request = Some rc"
      and "public rc = Some True"
  shows "createAuthPreHandler clerk options verifyOptions request = (Inr (), request, [])"
  using assms by (simp add: createAuthPreHandler_def)

theorem public_route_skips_authentication_witness:
  "createAuthPreHandler (mockRejectedValue (ErrorObject ''Token expired'')) observedOptions
     testVerifyOptions publicRouteRequest = (Inr (), publicRouteRequest, [])
   \<and> user publicRouteRequest = None"
proof -
  have h1: "respectPublicRoutes observedOptions \<noteq> Some False"
    by (simp add: observedOptions_def defaultOptions_def)
  have h2: "routeConfig publicRouteRequest = Some \<lparr> public = Some True \<rparr>"
    by (simp add: publicRouteRequest_def plainRequest_def)
  have h3: "public \<lparr> public = Some True \<rparr> = Some True"
    by simp
  show ?thesis
    using public_route_skips_authentication [OF h1 h2 h3]
    by (simp add: publicRouteRequest_def plainRequest_def)
qed

section \<open>Verification\<close>

lemma verifyOptions_copy:
  "\<lparr> secretKey = secretKey options, authorizedParties = authorizedParties options,
     jwtKey = jwtKey options \<rparr> = (options :: TokenVerificationOptions)"
  by (cases options) simp

lemma verifyToken_success:
  "verifyToken clerk token options = Inr u \<longleftrightarrow>
     (\<exists>payload. clerk token options = Inr payload \<and> u = mapClerkPayloadToUserContext payload)"
  by (auto simp: verifyToken_def verifyOptions_copy split: sum.splits)

lemma string_claim_None:
  "string_claim payload k = None \<longleftrightarrow> (\<forall>s. claims payload k \<noteq> Some (JStr s))"
  by (auto simp: string_claim_def split: option.splits jsvalue.splits)

lemma string_claim_Some:
  "claims payload k = Some (JStr s) \<Longrightarrow> string_claim payload k = Some s"
  by (simp add: string_claim_def)

text \<open>
  C2, as stated, fails. The three organization fields are mapped one by one, each from
  its own entry of the payload: a payload with \<open>org_role\<close> and no \<open>org_id\<close> gives a user
  context with a role and no organization identifier.
\<close>

theorem role_without_organization:
  "verifyToken (mockResolvedValue roleWithoutOrgPayload) ''valid-token'' testVerifyOptions =
     Inr (mapClerkPayloadToUserContext roleWithoutOrgPayload)
   \<and> orgRole (mapClerkPayloadToUserContext roleWithoutOrgPayload) = Some ''admin''
   \<and> orgId (mapClerkPayloadToUserContext roleWithoutOrgPayload) = None
   \<and> orgSlug (mapClerkPayloadToUserContext roleWithoutOrgPayload) = None"
  by (simp add: verifyToken_def mockResolvedValue_def mapClerkPayloadToUserContext_def
        string_claim_def roleWithoutOrgPayload_def)

text \<open>
  C2, amended. For every user context that \<open>verifyToken\<close> returns, each of the three
  organization fields is decided by its own payload entry alone (\<open>org_id\<close>, \<open>org_role\<close>,
  \<open>org_slug\<close>): it is that entry when the entry is a string, and null when the entry
  is absent or not a string. So the three are null together or populated together
  exactly when the payload has none or all of the three entries as strings.
\<close>

theorem organization_fields_follow_payload:
  assumes "verifyToken clerk token options = Inr u"
  shows "\<exists>payload. clerk token options = Inr payload \<and>
           (orgId u = None \<longleftrightarrow> (\<forall>s. claims payload ''org_id'' \<noteq> Some (JStr s))) \<and>
           (orgRole u = None \<longleftrightarrow> (\<forall>s. claims payload ''org_role'' \<noteq> Some (JStr s))) \<and>
           (orgSlug u = None \<longleftrightarrow> (\<forall>s. claims payload ''org_slug'' \<noteq> Some (JStr s))) \<and>
           (\<forall>s. claims payload ''org_id'' = Some (JStr s) \<longrightarrow> orgId u = Some s) \<and>
           (\<forall>s. claims payload ''org_role'' = Some (JStr s) \<longrightarrow> orgRole u = Some s) \<and>
           (\<forall>s. claims payload ''org_slug'' = Some (JStr s) \<longrightarrow> orgSlug u = Some s)"
proof -
  from assms obtain payload where p: "clerk token options = Inr payload"
    and u: "u = mapClerkPayloadToUserContext payload"
    by (auto simp: verifyToken_success)
  have "orgId u = string_claim payload ''org_id''"
       "orgRole u = string_claim payload ''org_role''"
       "orgSlug u = string_claim payload ''org_slug''"
    by (simp_all add: u mapClerkPayloadToUserContext_def)
  then show ?thesis
    using p by (simp add: string_claim_None string_claim_Some)
qed

theorem organization_fields_follow_payload_witness:
  "verifyToken (mockResolvedValue fullOrgPayload) ''valid-token'' testVerifyOptions =
     Inr (mapClerkPayloadToUserContext fullOrgPayload)
   \<and> orgId (mapClerkPayloadToUserContext fullOrgPayload) = Some ''org_123''
   \<and> orgRole (mapClerkPayloadToUserContext fullOrgPayload) = Some ''admin''
   \<and> orgSlug (mapClerkPayloadToUserContext fullOrgPayload) = Some ''acme''"
proof -
  have h: "verifyToken (mockResolvedValue fullOrgPayload) ''valid-token'' testVerifyOptions =
             Inr (mapClerkPayloadToUserContext fullOrgPayload)"
    by (simp add: verifyToken_def mockResolvedValue_def)
  show ?thesis
    using h organization_fields_follow_payload [OF h]
    by (simp add: mockResolvedValue_def fullOrgPayload_def)
qed

text \<open>
  C3, as stated, fails. The subject identifier is the payload's \<open>sub\<close> with no check:
  a payload with the empty \<open>sub\<close> gives a user context with the empty subject.
\<close>

theorem empty_subject_kept:
  "verifyToken (mockResolvedValue emptySubjectPayload) ''valid-token'' testVerifyOptions =
     Inr (mapClerkPayloadToUserContext emptySubjectPayload)
   \<and> userId (mapClerkPayloadToUserContext emptySubjectPayload) = []"
  by (simp add: verifyToken_def mockResolvedValue_def mapClerkPayloadToUserContext_def
        emptySubjectPayload_def)

text \<open>
  C3, amended. For every user context that \<open>verifyToken\<close> returns, the subject
  identifier is the payload's \<open>sub\<close> as it is; it is non-empty exactly when the
  provider's \<open>sub\<close> is non-empty.
\<close>

theorem subject_is_payload_sub:
  assumes "verifyToken clerk token options = Inr u"
  shows "\<exists>payload. clerk token options = Inr payload \<and> userId u = sub payload \<and>
           (userId u \<noteq> [] \<longleftrightarrow> sub payload \<noteq> [])"
  using assms by (auto simp: verifyToken_success mapClerkPayloadToUserContext_def)

theorem subject_is_payload_sub_witness:
  "verifyToken (mockResolvedValue roleWithoutOrgPayload) ''valid-token'' testVerifyOptions =
     Inr (mapClerkPayloadToUserContext roleWithoutOrgPayload)
   \<and> userId (mapClerkPayloadToUserContext roleWithoutOrgPayload) = ''user_123''"
proof -
  have h: "verifyToken (mockResolvedValue roleWithoutOrgPayload) ''valid-token''
             testVerifyOptions = Inr (mapClerkPayloadToUserContext roleWithoutOrgPayload)"
    by (simp add: verifyToken_def mockResolvedValue_def)
  show ?thesis
    using h subject_is_payload_sub [OF h]
    by (simp add: mockResolvedValue_def roleWithoutOrgPayload_def)
qed

text \<open>
  C6, as stated, fails. The classification does not follow the reason of the failure
  but the wording of the thrown message: an expiry reported as \<open>Token Expired\<close> is
  classified \<open>INVALID_TOKEN\<close> (the test is case-sensitive), and a failure that is no
  expiry of the credential, \<open>JWKS fetch failed: certificate has expired\<close>, is
  classified \<open>TOKEN_EXPIRED\<close>.
\<close>

theorem expiry_reason_misclassified:
  "verifyToken (mockRejectedValue (ErrorObject ''Token Expired'')) ''expired-token''
     testVerifyOptions =
     Inl (AuthErrorObject
            \<lparr> code = INVALID_TOKEN, message = ''Invalid or malformed token'',
              statusCode = 401 \<rparr>)
   \<and> verifyToken
       (mockRejectedValue (ErrorObject ''JWKS fetch failed: certificate has expired''))
       ''valid-token'' testVerifyOptions =
     Inl (AuthErrorObject
            \<lparr> code = TOKEN_EXPIRED, message = ''Token has expired'', statusCode = 401 \<rparr>)"
  by (simp add: verifyToken_def mockRejectedValue_def new_AuthError_def)

text \<open>
  C6, amended. Whatever the provider throws, \<open>verifyToken\<close> throws exactly one
  \<open>AuthError\<close>, either \<open>TOKEN_EXPIRED\<close> (\<open>Token has expired\<close>, 401) or
  \<open>INVALID_TOKEN\<close> (\<open>Invalid or malformed token\<close>, 401). It is \<open>TOKEN_EXPIRED\<close>
  exactly when the thrown value is an \<open>Error\<close> object whose message contains the
  text \<open>expired\<close> in that spelling, and \<open>INVALID_TOKEN\<close> for every other thrown value.
  When the provider resolves with a payload, \<open>verifyToken\<close> returns the mapped user
  context and throws nothing.
\<close>

theorem verifyToken_classification:
  "(clerk token options = Inr payload \<longrightarrow>
      verifyToken clerk token options = Inr (mapClerkPayloadToUserContext payload))
   \<and> (clerk token options = Inl err \<longrightarrow>
        (verifyToken clerk token options =
           Inl (AuthErrorObject
                  \<lparr> code = TOKEN_EXPIRED, message = ''Token has expired'', statusCode = 401 \<rparr>)
         \<or> verifyToken clerk token options =
           Inl (AuthErrorObject
                  \<lparr> code = INVALID_TOKEN, message = ''Invalid or malformed token'',
                    statusCode = 401 \<rparr>))
        \<and> (verifyToken clerk token options =
             Inl (AuthErrorObject
                    \<lparr> code = TOKEN_EXPIRED, message = ''Token has expired'',
                      statusCode = 401 \<rparr>)
           \<longleftrightarrow>
             ((\<exists>pre post. err = ErrorObject (pre @ ''expired'' @ post)) \<or>
              (\<exists>a pre post. err = AuthErrorObject a \<and>
                  message a = pre @ ''expired'' @ post))))"
proof (cases err)
  case (AuthErrorObject a)
  then show ?thesis
    by (auto simp: verifyToken_def verifyOptions_copy new_AuthError_def includes_append)
next
  case (ErrorObject m)
  then show ?thesis
    by (auto simp: verifyToken_def verifyOptions_copy new_AuthError_def includes_append)
next
  case (ThrownValue v)
  then show ?thesis
    by (auto simp: verifyToken_def verifyOptions_copy new_AuthError_def)
qed

theorem verifyToken_classification_witness:
  "verifyToken (mockRejectedValue (ErrorObject ''Token expired'')) ''expired-token''
     testVerifyOptions =
     Inl (AuthErrorObject
            \<lparr> code = TOKEN_EXPIRED, message = ''Token has expired'', statusCode = 401 \<rparr>)
   \<and> verifyToken (mockRejectedValue (ErrorObject ''Invalid token'')) ''invalid-token''
       testVerifyOptions =
     Inl (AuthErrorObject
            \<lparr> code = INVALID_TOKEN, message = ''Invalid or malformed token'',
              statusCode = 401 \<rparr>)
   \<and> verifyToken (mockResolvedValue fullOrgPayload) ''valid-token'' testVerifyOptions =
     Inr (mapClerkPayloadToUserContext fullOrgPayload)"
proof -
  let ?exp = "ErrorObject ''Token expired''"
  let ?inv = "ErrorObject ''Invalid token''"
  have h1: "mockRejectedValue ?exp ''expired-token'' testVerifyOptions = Inl ?exp"
    by (simp add: mockRejectedValue_def)
  have h2: "mockRejectedValue ?inv ''invalid-token'' testVerifyOptions = Inl ?inv"
    by (simp add: mockRejectedValue_def)
  have h3: "mockResolvedValue fullOrgPayload ''valid-token'' testVerifyOptions =
              Inr fullOrgPayload"
    by (simp add: mockResolvedValue_def)
  have inside: "?exp = ErrorObject (''Token '' @ ''expired'' @ [])"
    by simp
  have outside: "\<not> (\<exists>pre post. ''Invalid token'' = pre @ ''expired'' @ post)"
    using includes_append [of "''Invalid token''" "''expired''"] by simp
  have a: "verifyToken (mockRejectedValue ?exp) ''expired-token'' testVerifyOptions =
             Inl (AuthErrorObject
                    \<lparr> code = TOKEN_EXPIRED, message = ''Token has expired'',
                      statusCode = 401 \<rparr>)"
    using verifyToken_classification
            [of "mockRejectedValue ?exp" "''expired-token''" testVerifyOptions _ ?exp]
          h1 inside
    by blast
  have b: "verifyToken (mockRejectedValue ?inv) ''invalid-token'' testVerifyOptions =
             Inl (AuthErrorObject
                    \<lparr> code = INVALID_TOKEN, message = ''Invalid or malformed token'',
                      statusCode = 401 \<rparr>)"
    using verifyToken_classification
            [of "mockRejectedValue ?inv" "''invalid-token''" testVerifyOptions _ ?inv]
          h2 outside
    by auto
  have c: "verifyToken (mockResolvedValue fullOrgPayload) ''valid-token'' testVerifyOptions =
             Inr (mapClerkPayloadToUserContext fullOrgPayload)"
    using verifyToken_classification
            [of "mockResolvedValue fullOrgPayload" "''valid-token''" testVerifyOptions
                fullOrgPayload]
          h3
    by blast
  show ?thesis
    using a b c by simp
qed

text \<open>
  C10. The classification looks at the thrown value only. The result is
  \<open>TOKEN_EXPIRED\<close> if and only if the thrown value is an \<open>Error\<close> object (an
  \<open>AuthError\<close> is one) whose message has \<open>expired\<close> somewhere inside it; so a message
  such as \<open>unexpired key, bad signature\<close> is classified as expiry, and a thrown value
  that is no \<open>Error\<close> object is \<open>INVALID_TOKEN\<close> whatever it holds.
\<close>

theorem expiry_decided_by_substring:
  assumes "clerk token options = Inl err"
  shows "\<exists>e. verifyToken clerk token options = Inl (AuthErrorObject e) \<and>
           (code e = TOKEN_EXPIRED \<or> code e = INVALID_TOKEN) \<and>
           (code e = TOKEN_EXPIRED \<longleftrightarrow>
              ((\<exists>m. err = ErrorObject m \<and> (\<exists>pre post. m = pre @ ''expired'' @ post)) \<or>
               (\<exists>a. err = AuthErrorObject a \<and>
                    (\<exists>pre post. message a = pre @ ''expired'' @ post)))) \<and>
           (\<forall>v. err = ThrownValue v \<longrightarrow> code e = INVALID_TOKEN)"
proof (cases err)
  case (AuthErrorObject a)
  then show ?thesis
    using assms by (auto simp: verifyToken_def verifyOptions_copy new_AuthError_def includes_append)
next
  case (ErrorObject m)
  then show ?thesis
    using assms by (auto simp: verifyToken_def verifyOptions_copy new_AuthError_def includes_append)
next
  case (ThrownValue v)
  then show ?thesis
    using assms by (auto simp: verifyToken_def verifyOptions_copy new_AuthError_def)
qed

theorem expiry_decided_by_substring_witness:
  "verifyToken (mockRejectedValue (ErrorObject ''unexpired key, bad signature'')) ''some-token''
     testVerifyOptions =
     Inl (AuthErrorObject
            \<lparr> code = TOKEN_EXPIRED, message = ''Token has expired'', statusCode = 401 \<rparr>)
   \<and> verifyToken (mockRejectedValue (ThrownValue (JStr ''token expired''))) ''some-token''
       testVerifyOptions =
     Inl (AuthErrorObject
            \<lparr> code = INVALID_TOKEN, message = ''Invalid or malformed token'',
              statusCode = 401 \<rparr>)"
proof -
  let ?bad = "ErrorObject ''unexpired key, bad signature''"
  let ?str = "ThrownValue (JStr ''token expired'')"
  have h1: "mockRejectedValue ?bad ''some-token'' testVerifyOptions = Inl ?bad"
    by (simp add: mockRejectedValue_def)
  have h2: "mockRejectedValue ?str ''some-token'' testVerifyOptions = Inl ?str"
    by (simp add: mockRejectedValue_def)
  have inside: "''unexpired key, bad signature'' = ''un'' @ ''expired'' @ '' key, bad signature''"
    by simp
  from expiry_decided_by_substring
         [of "mockRejectedValue ?bad" "''some-token''" testVerifyOptions ?bad, OF h1]
  obtain e1 where
    e1: "verifyToken (mockRejectedValue ?bad) ''some-token'' testVerifyOptions =
           Inl (AuthErrorObject e1)"
    and c1: "code e1 = TOKEN_EXPIRED \<longleftrightarrow>
               (\<exists>pre post. ''unexpired key, bad signature'' = pre @ ''expired'' @ post)"
    by auto
  from expiry_decided_by_substring
         [of "mockRejectedValue ?str" "''some-token''" testVerifyOptions ?str, OF h2]
  obtain e2 where
    e2: "verifyToken (mockRejectedValue ?str) ''some-token'' testVerifyOptions =
           Inl (AuthErrorObject e2)"
    and c2: "code e2 = INVALID_TOKEN"
    by auto
  have "code e1 = TOKEN_EXPIRED"
    using c1 inside by blast
  then have "e1 = \<lparr> code = TOKEN_EXPIRED, message = ''Token has expired'', statusCode = 401 \<rparr>"
    using e1 by (auto simp: verifyToken_def new_AuthError_def split: sum.splits if_splits)
  moreover have "e2 = \<lparr> code = INVALID_TOKEN, message = ''Invalid or malformed token'',
                        statusCode = 401 \<rparr>"
    using e2 c2 by (auto simp: verifyToken_def new_AuthError_def split: sum.splits if_splits)
  ultimately show ?thesis
    using e1 e2 by simp
qed

section \<open>Errors and the error handler\<close>

text \<open>
  C7. An \<open>AuthError\<close> constructed without a status has 403 when its code is
  \<open>FORBIDDEN\<close> and 401 when it is \<open>UNAUTHORIZED\<close>, \<open>INVALID_TOKEN\<close> or
  \<open>TOKEN_EXPIRED\<close>; a status given to the constructor is kept. The error handler
  answers an \<open>AuthError\<close> with exactly its status and the body
  \<open>{ error: { code, message } }\<close>.
\<close>

theorem authError_status_and_response:
  "statusCode (new_AuthError FORBIDDEN m None) = 403
   \<and> statusCode (new_AuthError UNAUTHORIZED m None) = 401
   \<and> statusCode (new_AuthError INVALID_TOKEN m None) = 401
   \<and> statusCode (new_AuthError TOKEN_EXPIRED m None) = 401
   \<and> statusCode (new_AuthError c m (Some s)) = s
   \<and> code (new_AuthError c m sc) = c
   \<and> message (new_AuthError c m sc) = m
   \<and> authErrorHandler (AuthErrorObject (new_AuthError c m sc)) =
       Inr \<lparr> status = statusCode (new_AuthError c m sc),
             body = JObj [(''error'', JObj [(''code'', JStr (code_string c)),
                                            (''message'', JStr m)])] \<rparr>"
  by (simp add: new_AuthError_def toResponse_def)

theorem authError_status_and_response_witness:
  "authErrorHandler (AuthErrorObject (new_AuthError FORBIDDEN ''Role 'admin' required'' None)) =
     Inr \<lparr> status = 403,
           body = JObj [(''error'', JObj [(''code'', JStr ''FORBIDDEN''),
                                          (''message'', JStr ''Role 'admin' required'')])] \<rparr>
   \<and> authErrorHandler (AuthErrorObject (new_AuthError TOKEN_EXPIRED ''Token has expired'' None)) =
     Inr \<lparr> status = 401,
           body = JObj [(''error'', JObj [(''code'', JStr ''TOKEN_EXPIRED''),
                                          (''message'', JStr ''Token has expired'')])] \<rparr>
   \<and> statusCode (new_AuthError FORBIDDEN ''Custom'' (Some 401)) = 401"
  using authError_status_and_response [of "''Role 'admin' required''" FORBIDDEN 403 None]
        authError_status_and_response [of "''Token has expired''" TOKEN_EXPIRED 401 None]
        authError_status_and_response [of "''Custom''" FORBIDDEN 401 "Some 401"]
  by simp

section \<open>Permission guards\<close>

lemma requirePermission_passes:
  "user request = Some u \<Longrightarrow> check u = Inr ok \<Longrightarrow>
     (fst (requirePermission check errorMessage request) = Inr () \<longleftrightarrow> ok)"
  by (simp add: requirePermission_def)

lemma requirePermission_request:
  "snd (requirePermission check errorMessage request) = request"
  by (simp add: requirePermission_def split: option.splits sum.splits)

text \<open>
  C8. The guard made by \<open>requirePermission\<close> throws \<open>UNAUTHORIZED\<close> with the message
  \<open>Authentication required\<close>, whatever message it was given, when the request has no
  user. When the request has a user and the check returns a boolean, the guard throws
  \<open>FORBIDDEN\<close> with the given message (by default \<open>Insufficient permissions\<close>) exactly
  when the check returns false, and otherwise returns normally; in every case the
  request is left as it was.
\<close>

theorem requirePermission_outcomes:
  "(user request = None \<longrightarrow>
      requirePermission check errorMessage request =
        (Inl (AuthErrorObject
                \<lparr> code = UNAUTHORIZED, message = ''Authentication required'',
                  statusCode = 401 \<rparr>),
         request))
   \<and> (user request = Some u \<and> check u = Inr ok \<longrightarrow>
        snd (requirePermission check (Some m) request) = request \<and>
        (fst (requirePermission check (Some m) request) =
           Inl (AuthErrorObject \<lparr> code = FORBIDDEN, message = m, statusCode = 403 \<rparr>)
         \<longleftrightarrow> \<not> ok) \<and>
        (fst (requirePermission check (Some m) request) = Inr () \<longleftrightarrow> ok) \<and>
        (fst (requirePermission check None request) =
           Inl (AuthErrorObject
                  \<lparr> code = FORBIDDEN, message = ''Insufficient permissions'',
                    statusCode = 403 \<rparr>)
         \<longleftrightarrow> \<not> ok))"
  by (auto simp: requirePermission_def new_AuthError_def)

theorem requirePermission_outcomes_witness:
  "requirePermission isOrgAdmin (Some ''Organization role 'admin' required'') plainRequest =
     (Inl (AuthErrorObject
             \<lparr> code = UNAUTHORIZED, message = ''Authentication required'', statusCode = 401 \<rparr>),
      plainRequest)
   \<and> fst (requirePermission isOrgAdmin (Some ''Organization role 'admin' required'')
             memberRequest) =
     Inl (AuthErrorObject
            \<lparr> code = FORBIDDEN, message = ''Organization role 'admin' required'',
              statusCode = 403 \<rparr>)
   \<and> snd (requirePermission isOrgAdmin (Some ''Organization role 'admin' required'')
             memberRequest) = memberRequest"
proof -
  let ?u = "createMockUser \<lparr> orgId := Some ''org_123'', orgRole := Some ''member'' \<rparr>"
  have h0: "user plainRequest = None"
    by (simp add: plainRequest_def)
  have h1: "user memberRequest = Some ?u"
    by (simp add: memberRequest_def plainRequest_def)
  have h2: "isOrgAdmin ?u = Inr False"
    by (simp add: isOrgAdmin_def createMockUser_def)
  show ?thesis
    using h0 h1 h2
      requirePermission_outcomes
        [of plainRequest isOrgAdmin "Some ''Organization role 'admin' required''"]
      requirePermission_outcomes
        [of memberRequest isOrgAdmin _ ?u False "''Organization role 'admin' required''"]
    by simp
qed

lemma every_scope_array:
  "every_scope (Some (JArr xs)) targets = Inr (\<forall>t\<in>set targets. JStr t \<in> set xs)"
  by (induction targets) auto

lemma every_scope_undefined: "every_scope None targets = Inr (targets = [])"
  by (cases targets) auto

lemma every_scope_null: "every_scope (Some JNull) targets = Inr (targets = [])"
  by (cases targets) auto

lemma mapped_publicMetadata_not_null:
  "publicMetadata (mapClerkPayloadToUserContext payload) \<noteq> JNull"
  by (simp add: mapClerkPayloadToUserContext_def metadata_claim_def
           split: option.splits jsvalue.splits)

text \<open>
  C9. For a request with a user whose public metadata has an array under \<open>scopes\<close>,
  the guard \<open>requireScopes(targets)\<close> returns normally exactly when every target is an
  element of that array; when \<open>scopes\<close> is absent (or \<open>null\<close>) it returns normally
  exactly when there is no target, as for the empty array. \<open>requireScopes([])\<close>
  returns normally for every user, whatever the metadata holds, and leaves the
  request as it was. (The metadata itself is an object or another non-null value:
  its type has no \<open>null\<close>, and \<open>verifyToken\<close> never produces one.)
\<close>

theorem requireScopes_succeeds_iff:
  assumes "user request = Some u"
  shows "(get_property (publicMetadata u) ''scopes'' = Inr (Some (JArr xs)) \<longrightarrow>
           (fst (requireScopes targets request) = Inr () \<longleftrightarrow>
              (\<forall>t\<in>set targets. JStr t \<in> set xs)))
       \<and> (get_property (publicMetadata u) ''scopes'' = Inr None \<or>
          get_property (publicMetadata u) ''scopes'' = Inr (Some JNull) \<longrightarrow>
           (fst (requireScopes targets request) = Inr () \<longleftrightarrow> targets = []))
       \<and> (publicMetadata u \<noteq> JNull \<longrightarrow> requireScopes [] request = (Inr (), request))
       \<and> ((\<exists>payload. u = mapClerkPayloadToUserContext payload) \<longrightarrow>
            requireScopes [] request = (Inr (), request))"
proof -
  have a: "get_property (publicMetadata u) ''scopes'' = Inr (Some (JArr xs)) \<Longrightarrow>
           (fst (requireScopes targets request) = Inr () \<longleftrightarrow>
              (\<forall>t\<in>set targets. JStr t \<in> set xs))"
    using assms by (simp add: requireScopes_def requirePermission_passes every_scope_array)
  have b: "get_property (publicMetadata u) ''scopes'' = Inr None \<or>
           get_property (publicMetadata u) ''scopes'' = Inr (Some JNull) \<Longrightarrow>
           (fst (requireScopes targets request) = Inr () \<longleftrightarrow> targets = [])"
    using assms
    by (auto simp: requireScopes_def requirePermission_passes every_scope_undefined
          every_scope_null)
  have c: "publicMetadata u \<noteq> JNull \<Longrightarrow> requireScopes [] request = (Inr (), request)"
    using assms
    by (cases "publicMetadata u") (simp_all add: requireScopes_def requirePermission_def)
  have d: "\<exists>payload. u = mapClerkPayloadToUserContext payload \<Longrightarrow>
           requireScopes [] request = (Inr (), request)"
    using c mapped_publicMetadata_not_null by blast
  show ?thesis using a b c d by blast
qed

theorem requireScopes_succeeds_iff_witness:
  "fst (requireScopes [''read'', ''write''] scopedRequest) = Inr ()
   \<and> fst (requireScopes [''read'', ''admin''] scopedRequest) \<noteq> Inr ()
   \<and> fst (requireScopes [''read''] (plainRequest \<lparr> user := Some createMockUser \<rparr>)) \<noteq> Inr ()
   \<and> requireScopes [] (plainRequest \<lparr> user := Some createMockUser \<rparr>) =
       (Inr (), plainRequest \<lparr> user := Some createMockUser \<rparr>)"
proof -
  let ?xs = "[JStr ''read'', JStr ''write'', JStr ''delete'']"
  let ?bare = "plainRequest \<lparr> user := Some createMockUser \<rparr>"
  have h1: "user scopedRequest = Some scopedUser"
    by (simp add: scopedRequest_def)
  have h2: "get_property (publicMetadata scopedUser) ''scopes'' = Inr (Some (JArr ?xs))"
    by (simp add: scopedUser_def)
  have h3: "user ?bare = Some createMockUser"
    by simp
  have h4: "get_property (publicMetadata createMockUser) ''scopes'' = Inr None"
           "publicMetadata createMockUser \<noteq> JNull"
    by (simp_all add: createMockUser_def)
  show ?thesis
    using h2 h4
      requireScopes_succeeds_iff [OF h1, of ?xs "[''read'', ''write'']"]
      requireScopes_succeeds_iff [OF h1, of ?xs "[''read'', ''admin'']"]
      requireScopes_succeeds_iff [OF h3, of ?xs "[''read'']"]
    by simp
qed

end
